theory Spec2Isabelle
  imports Complex_Main "HOL-Library.Char_ord" "HOL-Library.List_Lexorder"
begin

section \<open>Data model\<close>

text \<open>
  The marketplace keeps three tables (\<^verbatim>\<open>db/schema.ts\<close>): \<^verbatim>\<open>listings\<close>,
  \<^verbatim>\<open>user_profiles\<close> and \<^verbatim>\<open>listing_images\<close>. A table is a list of rows in storage
  order. Integer columns are unbounded integers (SQLite stores 64-bit integers; the
  millisecond timestamps and counters handled here are far from that bound), text columns
  are strings, a nullable column is an \<open>option\<close>.

  The listing's primary key \<^verbatim>\<open>id\<close> is called \<open>listing_id\<close>, since \<open>id\<close> is the identity
  function of HOL; the columns of the other tables that share a name with a listing
  column carry the table's name as a prefix.
\<close>

datatype ListingStatus = ACTIVE | EXPIRED | ARCHIVED

record listing =
  listing_id :: int
  userId :: int
  username :: string
  displayName :: string
  title :: string
  content :: string
  price :: int
  category :: string
  status :: ListingStatus
  expiresAt :: int
  lastBumpedAt :: "int option"
  bumpCount :: int
  starCount :: int
  paymentId :: "string option"
  isPaymentPending :: int
  createdAt :: string
  updatedAt :: string

record userProfile =
  profile_id :: int
  telegramId :: int
  profile_username :: "string option"
  profile_displayName :: "string option"
  bio :: "string option"
  phoneNumber :: "string option"
  contactLinks :: "string option"
  profileImageKey :: "string option"
  isBanned :: int
  profile_createdAt :: string
  profile_updatedAt :: string

record listingImage =
  image_id :: int
  listingId :: int
  originalName :: string
  imageKey :: string
  thumbnailKey :: string
  mimeType :: string
  fileSize :: int
  width :: int
  height :: int
  uploadOrder :: int
  image_createdAt :: string

record database =
  listings :: "listing list"
  userProfiles :: "userProfile list"
  listingImages :: "listingImage list"

subsection \<open>Constants (\<^verbatim>\<open>shared/constants.ts\<close>)\<close>

definition EXPIRY_DEFAULT_DAYS :: int where
  "EXPIRY_DEFAULT_DAYS = 3"

definition EXPIRY_FREE_BUMP_DAYS :: int where
  "EXPIRY_FREE_BUMP_DAYS = 3"

definition EXPIRY_PAID_BUMP_DAYS :: int where
  "EXPIRY_PAID_BUMP_DAYS = 7"

definition BUMP_COOLDOWN_HOURS :: int where
  "BUMP_COOLDOWN_HOURS = 24"

subsection \<open>The query primitives the services use\<close>

text \<open>
  \<^verbatim>\<open>select().from(listings).where(eq(listings.id, i)).limit(1)\<close> followed by the
  destructuring \<^verbatim>\<open>const [listing] = ...\<close>: the first row with that id, or
  \<^verbatim>\<open>undefined\<close>.
\<close>

definition selectListingById :: "int \<Rightarrow> listing list \<Rightarrow> listing option" where
  "selectListingById i rows = find (\<lambda>l. listing_id l = i) rows"

text \<open>
  \<^verbatim>\<open>update(listings).set(...).where(...).returning()\<close>: one statement that rewrites
  every row the condition selects and leaves the others, and returns the rewritten rows.
\<close>

definition updateWhere ::
  "(listing \<Rightarrow> bool) \<Rightarrow> (listing \<Rightarrow> listing) \<Rightarrow> listing list \<Rightarrow> listing list \<times> listing list"
where
  "updateWhere cond setter rows =
     (map (\<lambda>l. if cond l then setter l else l) rows, map setter (filter cond rows))"

text \<open>The destructuring \<^verbatim>\<open>const [row] = ...\<close> of a result list.\<close>

definition firstRow :: "'a list \<Rightarrow> 'a option" where
  "firstRow rows = (case rows of [] \<Rightarrow> None | r # _ \<Rightarrow> Some r)"

section \<open>ListingService: creation and the expiry sweep\<close>

record CreateListingInput =
  new_title :: string
  new_description :: string
  new_price :: int
  new_category :: string

text \<open>
  \<^verbatim>\<open>createListing\<close>. The clock is read twice (\<^verbatim>\<open>new Date().toISOString()\<close> and
  \<^verbatim>\<open>Date.now()\<close>); both readings are parameters, as is the key the database
  generates. The columns not mentioned by the insert take their schema defaults.
\<close>

definition createListing ::
  "string \<Rightarrow> int \<Rightarrow> int \<Rightarrow> int \<Rightarrow> string \<Rightarrow> string \<Rightarrow> CreateListingInput
     \<Rightarrow> listing list \<Rightarrow> listing list \<times> listing"
where
  "createListing nowIso nowMs newId uid uname dname input rows =
     (let expires = nowMs + EXPIRY_DEFAULT_DAYS * 24 * 60 * 60 * 1000;
          newListing = \<lparr> listing_id = newId, userId = uid, username = uname,
            displayName = dname, title = new_title input, content = new_description input,
            price = new_price input, category = new_category input, status = ACTIVE,
            expiresAt = expires, lastBumpedAt = None, bumpCount = 0, starCount = 0,
            paymentId = None, isPaymentPending = 0, createdAt = nowIso, updatedAt = nowIso \<rparr>
      in (rows @ [newListing], newListing))"

text \<open>
  \<^verbatim>\<open>expireOldListings\<close>: one update of every row with
  \<^verbatim>\<open>status = 'active' AND expires_at <= now\<close>; the rewritten rows are returned.
\<close>

definition isStale :: "int \<Rightarrow> listing \<Rightarrow> bool" where
  "isStale now l = (status l = ACTIVE \<and> expiresAt l \<le> now)"

definition expireOldListings :: "int \<Rightarrow> string \<Rightarrow> listing list \<Rightarrow> listing list \<times> listing list" where
  "expireOldListings now nowIso rows =
     updateWhere (isStale now) (\<lambda>l. l\<lparr>status := EXPIRED, updatedAt := nowIso\<rparr>) rows"

section \<open>BumpService\<close>

text \<open>
  \<^verbatim>\<open>canBumpListing\<close> answers with an object
  \<^verbatim>\<open>{canBump, reason?, hoursUntilNextBump?}\<close>, and \<^verbatim>\<open>bumpListing\<close> throws
  \<^verbatim>\<open>new Error(reason)\<close> when \<^verbatim>\<open>canBump\<close> is false. The reasons are the
  constructors of \<open>BumpError\<close>:
  \<^item> \<open>NotFoundError\<close> is the message \<^verbatim>\<open>Listing not found\<close>,
  \<^item> \<open>NotOwnerError\<close> is \<^verbatim>\<open>You don't own this listing\<close>,
  \<^item> \<open>CooldownError n\<close> is \<^verbatim>\<open>You can bump again in n hour(s)\<close>,
  \<^item> \<open>CannotBumpError\<close> is the fallback \<^verbatim>\<open>Cannot bump listing\<close> of an empty reason.
\<close>

datatype BumpError = NotFoundError | NotOwnerError | CooldownError int | CannotBumpError

record BumpEligibility =
  canBump :: bool
  reason :: "BumpError option"
  hoursUntilNextBump :: "int option"

record BumpListingInput =
  bump_listingId :: int
  bump_userId :: int
  isPaid :: bool

text \<open>
  \<^verbatim>\<open>(Date.now() - listing.lastBumpedAt) / (1000 * 60 * 60)\<close>. The source divides in
  double precision; the quotient of two millisecond counts is taken here as the exact
  rational, which has the same comparison with 24 and the same ceiling.
\<close>

definition hoursSinceLastBump :: "int \<Rightarrow> int \<Rightarrow> rat" where
  "hoursSinceLastBump now lastBumped = of_int (now - lastBumped) / of_int (1000 * 60 * 60)"

text \<open>
  The guard \<^verbatim>\<open>if (listing.lastBumpedAt)\<close> is a truthiness test: it is false for
  \<^verbatim>\<open>null\<close> and also for the number 0.
\<close>

definition canBumpListing :: "int \<Rightarrow> int \<Rightarrow> int \<Rightarrow> listing list \<Rightarrow> BumpEligibility" where
  "canBumpListing now lid uid rows =
     (case selectListingById lid rows of
        None \<Rightarrow> \<lparr>canBump = False, reason = Some NotFoundError, hoursUntilNextBump = None\<rparr>
      | Some l \<Rightarrow>
          if userId l \<noteq> uid
          then \<lparr>canBump = False, reason = Some NotOwnerError, hoursUntilNextBump = None\<rparr>
          else (case lastBumpedAt l of
                  None \<Rightarrow> \<lparr>canBump = True, reason = None, hoursUntilNextBump = None\<rparr>
                | Some t \<Rightarrow>
                    if t \<noteq> 0 \<and> hoursSinceLastBump now t < of_int BUMP_COOLDOWN_HOURS
                    then (let h = \<lceil>of_int BUMP_COOLDOWN_HOURS - hoursSinceLastBump now t\<rceil>
                          in \<lparr>canBump = False, reason = Some (CooldownError h),
                              hoursUntilNextBump = Some h\<rparr>)
                    else \<lparr>canBump = True, reason = None, hoursUntilNextBump = None\<rparr>))"

text \<open>
  The assignment \<^verbatim>\<open>.set({expiresAt, lastBumpedAt, bumpCount, status, updatedAt})\<close> of
  \<^verbatim>\<open>bumpListing\<close> on a row, with the two constants \<^verbatim>\<open>daysToAdd\<close> and
  \<^verbatim>\<open>newExpiresAt\<close> that the function computes before it.
\<close>

definition bumpData :: "int \<Rightarrow> string \<Rightarrow> bool \<Rightarrow> listing \<Rightarrow> listing" where
  "bumpData now nowIso paid l =
     (let daysToAdd = (if paid then EXPIRY_PAID_BUMP_DAYS else EXPIRY_FREE_BUMP_DAYS);
          newExpiresAt = now + daysToAdd * 24 * 60 * 60 * 1000
      in l\<lparr>expiresAt := newExpiresAt, lastBumpedAt := Some now,
             bumpCount := bumpCount l + 1, status := ACTIVE, updatedAt := nowIso\<rparr>)"

text \<open>
  \<^verbatim>\<open>bumpListing\<close>. \<open>checkedAt\<close> is the clock reading inside \<^verbatim>\<open>canBumpListing\<close>,
  \<open>now\<close> and \<open>nowIso\<close> are the two readings taken after it. A thrown error is \<open>Inl\<close> and
  leaves the table as it was; success is \<open>Inr\<close> of the new table and the returned row.
\<close>

definition bumpListing ::
  "int \<Rightarrow> int \<Rightarrow> string \<Rightarrow> BumpListingInput \<Rightarrow> listing list
     \<Rightarrow> BumpError + (listing list \<times> listing option)"
where
  "bumpListing checkedAt now nowIso input rows =
     (let eligibility = canBumpListing checkedAt (bump_listingId input) (bump_userId input) rows
      in if \<not> canBump eligibility
         then Inl (case reason eligibility of Some r \<Rightarrow> r | None \<Rightarrow> CannotBumpError)
         else
           (let (rows', returned) =
                  updateWhere (\<lambda>l. listing_id l = bump_listingId input)
                    (bumpData now nowIso (isPaid input)) rows
            in Inr (rows', firstRow returned)))"

subsection \<open>The write statements of a bump\<close>

text \<open>
  What another reader of the table can see while a call runs is the table before the call
  and the table after each write statement the call issues: one
  \<^verbatim>\<open>update(listings).set(...).where(...)\<close> is one statement, which the storage layer
  applies as a whole, and a \<^verbatim>\<open>select\<close> writes nothing. A write statement is its
  \<^verbatim>\<open>where\<close> condition and its \<^verbatim>\<open>set\<close> assignment.
\<close>

record updateStatement =
  whereCond :: "listing \<Rightarrow> bool"
  setData :: "listing \<Rightarrow> listing"

definition runStatement :: "updateStatement \<Rightarrow> listing list \<Rightarrow> listing list" where
  "runStatement st rows = fst (updateWhere (whereCond st) (setData st) rows)"

text \<open>The tables seen in turn while the statements run in order, the first one before any.\<close>

fun observableTables :: "updateStatement list \<Rightarrow> listing list \<Rightarrow> listing list list" where
  "observableTables [] rows = [rows]"
| "observableTables (st # sts) rows = rows # observableTables sts (runStatement st rows)"

text \<open>
  The write statements \<^verbatim>\<open>bumpListing\<close> issues: none when it throws, and otherwise the one
  update whose \<^verbatim>\<open>set\<close> carries all five columns.
\<close>

definition bumpListingStatements ::
  "int \<Rightarrow> int \<Rightarrow> string \<Rightarrow> BumpListingInput \<Rightarrow> listing list \<Rightarrow> updateStatement list"
where
  "bumpListingStatements checkedAt now nowIso input rows =
     (let eligibility = canBumpListing checkedAt (bump_listingId input) (bump_userId input) rows
      in if \<not> canBump eligibility
         then []
         else [\<lparr> whereCond = (\<lambda>l. listing_id l = bump_listingId input),
                 setData = bumpData now nowIso (isPaid input) \<rparr>])"

section \<open>ListingService: content updates\<close>

record UpdateListingInput =
  upd_title :: "string option"
  upd_description :: "string option"
  upd_price :: "int option"
  upd_category :: "string option"

text \<open>
  The object \<^verbatim>\<open>updateData\<close> of \<^verbatim>\<open>updateListing\<close>, as the assignment it makes to a
  row: \<^verbatim>\<open>updatedAt\<close> always, each of the four content columns when the input has it.
\<close>

definition updateData :: "string \<Rightarrow> UpdateListingInput \<Rightarrow> listing \<Rightarrow> listing" where
  "updateData now input l =
     (let l0 = l\<lparr>updatedAt := now\<rparr>;
          l1 = (case upd_title input of Some t \<Rightarrow> l0\<lparr>title := t\<rparr> | None \<Rightarrow> l0);
          l2 = (case upd_description input of Some d \<Rightarrow> l1\<lparr>content := d\<rparr> | None \<Rightarrow> l1);
          l3 = (case upd_price input of Some p \<Rightarrow> l2\<lparr>price := p\<rparr> | None \<Rightarrow> l2)
      in (case upd_category input of Some c \<Rightarrow> l3\<lparr>category := c\<rparr> | None \<Rightarrow> l3))"

definition updateListing ::
  "string \<Rightarrow> int \<Rightarrow> int \<Rightarrow> UpdateListingInput \<Rightarrow> listing list \<Rightarrow> listing list \<times> listing option"
where
  "updateListing now lid uid input rows =
     (let (rows', returned) =
            updateWhere (\<lambda>l. listing_id l = lid \<and> userId l = uid) (updateData now input) rows
      in (rows', firstRow returned))"

section \<open>ListingService: list queries\<close>

datatype SortBy = SortPrice | SortDate

datatype SortOrder = Asc | Desc

text \<open>
  \<^verbatim>\<open>GetListingsInput\<close>. The three filters that share a name with a listing column are
  \<open>filter_category\<close>, \<open>filter_status\<close> and \<open>filter_userId\<close>. \<open>limit\<close> and \<open>offset\<close>
  are natural numbers: the request parser clamps them to 1..100 and to 0 or more.
\<close>

record GetListingsInput =
  limit :: nat
  offset :: nat
  filter_category :: "string option"
  priceMin :: "int option"
  priceMax :: "int option"
  search :: "string option"
  sortBy :: "SortBy option"
  sortOrder :: "SortOrder option"
  filter_status :: "ListingStatus list option"
  filter_userId :: "int option"

text \<open>
  The status condition: \<^verbatim>\<open>input.status && input.status.length > 0\<close> selects the
  disjunction over the given statuses, anything else the default \<^verbatim>\<open>status = 'active'\<close>.
\<close>

definition statusCondition :: "GetListingsInput \<Rightarrow> listing \<Rightarrow> bool" where
  "statusCondition input l =
     (case filter_status input of
        Some sts \<Rightarrow> if length sts > 0 then list_ex (\<lambda>s. status l = s) sts else status l = ACTIVE
      | None \<Rightarrow> status l = ACTIVE)"

text \<open>
  The conditions on the listing columns, in the order both \<^verbatim>\<open>getListings\<close> and
  \<^verbatim>\<open>getListingsWithImages\<close> build them. \<^verbatim>\<open>input.category\<close> and \<^verbatim>\<open>input.search\<close>
  are tested for truthiness (absent and the empty string add no condition), the price
  bounds and the owner for \<^verbatim>\<open>!== undefined\<close>. The operator \<^verbatim>\<open>LIKE\<close> belongs to the
  database engine and is the parameter \<open>like\<close>, applied to a column value and the pattern
  \<^verbatim>\<open>%search%\<close>.
\<close>

definition listingConditions ::
  "(string \<Rightarrow> string \<Rightarrow> bool) \<Rightarrow> GetListingsInput \<Rightarrow> (listing \<Rightarrow> bool) list"
where
  "listingConditions like input =
     [statusCondition input]
     @ (case filter_category input of
          Some c \<Rightarrow> if c \<noteq> [] then [\<lambda>l. category l = c] else []
        | None \<Rightarrow> [])
     @ (case priceMin input of Some m \<Rightarrow> [\<lambda>l. m \<le> price l] | None \<Rightarrow> [])
     @ (case priceMax input of Some m \<Rightarrow> [\<lambda>l. price l \<le> m] | None \<Rightarrow> [])
     @ (case filter_userId input of Some u \<Rightarrow> [\<lambda>l. userId l = u] | None \<Rightarrow> [])
     @ (case search input of
          Some s \<Rightarrow>
            if s \<noteq> []
            then [\<lambda>l. like (title l) (''%'' @ s @ ''%'') \<or> like (content l) (''%'' @ s @ ''%'')
                       \<or> like (category l) (''%'' @ s @ ''%'')]
            else []
        | None \<Rightarrow> [])"

text \<open>\<^verbatim>\<open>and(...conditions)\<close> on a row.\<close>

definition allHold :: "('a \<Rightarrow> bool) list \<Rightarrow> 'a \<Rightarrow> bool" where
  "allHold conds r = list_all (\<lambda>c. c r) conds"

text \<open>
  \<^verbatim>\<open>ORDER BY\<close>: by price when \<^verbatim>\<open>sortBy === "price"\<close>, by \<^verbatim>\<open>createdAt\<close> otherwise;
  ascending when \<^verbatim>\<open>sortOrder === "asc"\<close>, descending otherwise. \<^verbatim>\<open>createdAt\<close> is a
  text column and is compared as text. The sort is stable in both directions: rows with
  equal keys come out in storage order, ascending and descending (a descending sort is the
  reverse of the stable ascending sort of the reversed table).
\<close>

definition orderRows :: "GetListingsInput \<Rightarrow> ('a \<Rightarrow> listing) \<Rightarrow> 'a list \<Rightarrow> 'a list" where
  "orderRows input proj rows =
     (if sortBy input = Some SortPrice
      then (if sortOrder input = Some Asc
            then sort_key (\<lambda>r. price (proj r)) rows
            else rev (sort_key (\<lambda>r. price (proj r)) (rev rows)))
      else (if sortOrder input = Some Asc
            then sort_key (\<lambda>r. createdAt (proj r)) rows
            else rev (sort_key (\<lambda>r. createdAt (proj r)) (rev rows))))"

definition getListings ::
  "(string \<Rightarrow> string \<Rightarrow> bool) \<Rightarrow> GetListingsInput \<Rightarrow> listing list \<Rightarrow> listing list"
where
  "getListings like input rows =
     take (limit input) (drop (offset input)
       (orderRows input (\<lambda>l. l) (filter (allHold (listingConditions like input)) rows)))"

subsection \<open>The browse query with owner profiles and images\<close>

text \<open>
  \<^verbatim>\<open>listings LEFT JOIN user_profiles ON listings.user_id = user_profiles.telegram_id\<close>:
  a listing is paired with every profile of its owner, and with no profile (all profile
  columns \<^verbatim>\<open>NULL\<close>) when there is none.
\<close>

definition leftJoinProfiles ::
  "listing list \<Rightarrow> userProfile list \<Rightarrow> (listing \<times> userProfile option) list"
where
  "leftJoinProfiles ls ps =
     concat (map (\<lambda>l. case filter (\<lambda>p. telegramId p = userId l) ps of
                         [] \<Rightarrow> [(l, None)]
                       | m # ms \<Rightarrow> map (\<lambda>p. (l, Some p)) (m # ms)) ls)"

text \<open>
  \<^verbatim>\<open>eq(userProfiles.isBanned, 0)\<close> on a joined row. On a row without profile the column
  is \<^verbatim>\<open>NULL\<close>, the comparison is \<^verbatim>\<open>NULL\<close>, and the row is not selected.
\<close>

definition notBanned :: "listing \<times> userProfile option \<Rightarrow> bool" where
  "notBanned r = (case snd r of None \<Rightarrow> False | Some p \<Rightarrow> isBanned p = 0)"

record ImageUrlData =
  data_id :: int
  data_imageKey :: string
  data_thumbnailKey :: string
  data_width :: int
  data_height :: int
  data_originalName :: string
  data_fileSize :: int
  data_uploadOrder :: int

record ProfileData =
  data_displayName :: "string option"
  data_bio :: "string option"
  data_profileImageKey :: "string option"
  data_username :: "string option"

text \<open>
  An element of the result: the selected listing columns (all of them; \<^verbatim>\<open>content\<close> is
  delivered under the name \<^verbatim>\<open>description\<close>) with \<^verbatim>\<open>profile\<close> and \<^verbatim>\<open>images\<close> added.
\<close>

record ListingWithImages = listing +
  profile :: "ProfileData option"
  images :: "ImageUrlData list"

definition getListingImagesData :: "int \<Rightarrow> listingImage list \<Rightarrow> ImageUrlData list" where
  "getListingImagesData lid imgs =
     map (\<lambda>image. \<lparr> data_id = image_id image, data_imageKey = imageKey image,
                     data_thumbnailKey = thumbnailKey image, data_width = width image,
                     data_height = height image, data_originalName = originalName image,
                     data_fileSize = fileSize image, data_uploadOrder = uploadOrder image \<rparr>)
       (sort_key uploadOrder (filter (\<lambda>image. listingId image = lid) imgs))"

text \<open>
  The second pass over the selected listings: images, the owner's profile (first row
  with that \<^verbatim>\<open>telegramId\<close>), and \<^verbatim>\<open>profile?.displayName || listing.displayName\<close>,
  where an absent and an empty profile name both fall back to the listing's.
\<close>

definition withImages :: "database \<Rightarrow> listing \<Rightarrow> ListingWithImages" where
  "withImages db l =
     (let imgs = getListingImagesData (listing_id l) (listingImages db);
          prof = find (\<lambda>p. telegramId p = userId l) (userProfiles db);
          effectiveDisplayName =
            (case prof of
               None \<Rightarrow> displayName l
             | Some p \<Rightarrow> (case profile_displayName p of
                            None \<Rightarrow> displayName l
                          | Some n \<Rightarrow> if n \<noteq> [] then n else displayName l))
      in listing.extend (l\<lparr>displayName := effectiveDisplayName\<rparr>)
           (ListingWithImages.fields
              (map_option (\<lambda>p. \<lparr> data_displayName = profile_displayName p, data_bio = bio p,
                                    data_profileImageKey = profileImageKey p,
                                    data_username = profile_username p \<rparr>) prof)
              imgs))"

definition getListingsWithImages ::
  "(string \<Rightarrow> string \<Rightarrow> bool) \<Rightarrow> GetListingsInput \<Rightarrow> database \<Rightarrow> ListingWithImages list"
where
  "getListingsWithImages like input db =
     (let joined = leftJoinProfiles (listings db) (userProfiles db);
          selected = filter (allHold (notBanned # map (\<lambda>c r. c (fst r)) (listingConditions like input)))
                       joined;
          listingList = map fst (take (limit input) (drop (offset input)
                          (orderRows input fst selected)))
      in map (withImages db) listingList)"

section \<open>The browse handlers (\<^verbatim>\<open>api/listings.ts\<close>)\<close>

record ListingsResponse =
  resp_listings :: "ListingWithImages list"
  resp_limit :: nat
  resp_offset :: nat
  hasMore :: bool

definition createPaginationResponse :: "ListingWithImages list \<Rightarrow> nat \<Rightarrow> nat \<Rightarrow> ListingsResponse" where
  "createPaginationResponse ls pageLimit pageOffset =
     \<lparr> resp_listings = ls, resp_limit = pageLimit, resp_offset = pageOffset,
       hasMore = (length ls = pageLimit) \<rparr>"

text \<open>
  \<^verbatim>\<open>getAllListings\<close>, from the parsed filters on: the sweep, then the browse query on
  the swept table. The handler does not look at who is asking.
\<close>

definition getAllListings ::
  "(string \<Rightarrow> string \<Rightarrow> bool) \<Rightarrow> int \<Rightarrow> string \<Rightarrow> GetListingsInput \<Rightarrow> database
     \<Rightarrow> database \<times> ListingsResponse"
where
  "getAllListings like now nowIso filters db =
     (let db' = db\<lparr>listings := fst (expireOldListings now nowIso (listings db))\<rparr>;
          ls = getListingsWithImages like filters db'
      in (db', createPaginationResponse ls (limit filters) (offset filters)))"

text \<open>
  Modelled from the spec: \<^verbatim>\<open>ProfileService.getProfile\<close> is not among the sources; the
  spec describes the profile collaborator as a lookup of a user's profile by the user's
  identity, which on the \<^verbatim>\<open>user_profiles\<close> table is the row with that \<^verbatim>\<open>telegramId\<close>.
\<close>

definition getProfile :: "int \<Rightarrow> userProfile list \<Rightarrow> userProfile option" where
  "getProfile uid ps = find (\<lambda>p. telegramId p = uid) ps"

text \<open>
  \<^verbatim>\<open>getUserListings\<close>, from the parsed user id and filters on. \<open>viewerRole\<close> is the role
  of the validated session of the request (\<open>None\<close> when there is no valid session); the
  session store is outside these sources.
\<close>

definition getUserListings ::
  "(string \<Rightarrow> string \<Rightarrow> bool) \<Rightarrow> int \<Rightarrow> string \<Rightarrow> string option \<Rightarrow> int \<Rightarrow> GetListingsInput
     \<Rightarrow> database \<Rightarrow> database \<times> ListingsResponse"
where
  "getUserListings like now nowIso viewerRole uid filters db =
     (let targetProfile = getProfile uid (userProfiles db);
          targetBanned = (case targetProfile of None \<Rightarrow> False | Some p \<Rightarrow> isBanned p = 1);
          isViewerAdmin = (viewerRole = Some ''admin'')
      in if targetBanned \<and> \<not> isViewerAdmin
         then (db, createPaginationResponse [] (limit filters) (offset filters))
         else
           (let db' = db\<lparr>listings := fst (expireOldListings now nowIso (listings db))\<rparr>;
                ls = getListingsWithImages like (filters\<lparr>filter_userId := Some uid\<rparr>) db'
            in (db', createPaginationResponse ls (limit filters) (offset filters))))"

section \<open>AdminService\<close>

text \<open>
  What the call to the Telegram API does is the environment's choice: \<^verbatim>\<open>fetch\<close> may
  throw, reading the body as JSON may throw, or a body arrives whose \<^verbatim>\<open>ok\<close> is true
  or false.
\<close>

datatype TelegramReply = FetchThrows | JsonThrows | Replied bool

text \<open>
  \<^verbatim>\<open>sendArchiveNotification\<close> returns nothing; what it leaves behind are the lines it
  writes with \<^verbatim>\<open>console.error\<close>. It returns early on a falsy bot token (absent or
  empty) and catches whatever the delivery throws.
\<close>

definition sendArchiveNotification ::
  "string option \<Rightarrow> TelegramReply \<Rightarrow> int \<Rightarrow> string \<Rightarrow> string \<Rightarrow> string list"
where
  "sendArchiveNotification botToken reply uid listingTitle why =
     (if botToken = None \<or> botToken = Some []
      then [''TELEGRAM_BOT_TOKEN not configured'']
      else (case reply of
              FetchThrows \<Rightarrow> [''Error sending Telegram notification:'']
            | JsonThrows \<Rightarrow> [''Error sending Telegram notification:'']
            | Replied ok \<Rightarrow> if \<not> ok then [''Failed to send Telegram notification:''] else []))"

text \<open>
  \<^verbatim>\<open>AdminService.archiveListing\<close>. The answer \<^verbatim>\<open>{success: false, error}\<close> is \<open>Inl\<close> of
  the message, \<^verbatim>\<open>{success: true, listing}\<close> is \<open>Inr\<close> of the returned row. The result
  carries the table after the call and the lines logged.
\<close>

definition archiveListing ::
  "string \<Rightarrow> string option \<Rightarrow> TelegramReply \<Rightarrow> int \<Rightarrow> string \<Rightarrow> listing list
     \<Rightarrow> listing list \<times> string list \<times> (string + listing option)"
where
  "archiveListing now botToken reply lid why rows =
     (case selectListingById lid rows of
        None \<Rightarrow> (rows, [], Inl ''Listing not found'')
      | Some l \<Rightarrow>
          (let (rows', returned) =
                 updateWhere (\<lambda>r. listing_id r = lid)
                   (\<lambda>r. r\<lparr>status := ARCHIVED, updatedAt := now\<rparr>) rows;
               logged = sendArchiveNotification botToken reply (userId l) (title l) why
           in (rows', logged, Inr (firstRow returned))))"

section \<open>Example data\<close>

text \<open>
  A listing as \<^verbatim>\<open>createListing\<close> writes it on 1 January 2024, 00:00 UTC (millisecond
  1704067200000) for user 7, the states it reaches by a free bump and by a paid bump one
  day later and by an archive, the owner's profile, and a browse request with the parser's
  defaults.
\<close>

definition lamp :: listing where
  "lamp = \<lparr> listing_id = 1, userId = 7, username = ''alice'', displayName = ''Alice'',
      title = ''Lamp'', content = ''Desk lamp'', price = 1500, category = ''home'',
      status = ACTIVE, expiresAt = 1704326400000, lastBumpedAt = None, bumpCount = 0,
      starCount = 0, paymentId = None, isPaymentPending = 0,
      createdAt = ''2024-01-01T00:00:00.000Z'', updatedAt = ''2024-01-01T00:00:00.000Z'' \<rparr>"

definition bumpedLamp :: listing where
  "bumpedLamp = lamp\<lparr>expiresAt := 1704412800000, lastBumpedAt := Some 1704153600000,
      bumpCount := 1, status := ACTIVE, updatedAt := ''2024-01-02T00:00:00.000Z''\<rparr>"

definition paidLamp :: listing where
  "paidLamp = lamp\<lparr>expiresAt := 1704758400000, lastBumpedAt := Some 1704153600000,
      bumpCount := 1, status := ACTIVE, updatedAt := ''2024-01-02T00:00:00.000Z''\<rparr>"

definition archivedLamp :: listing where
  "archivedLamp = lamp\<lparr>status := ARCHIVED, updatedAt := ''2024-01-02T00:00:00.000Z''\<rparr>"

definition seller :: userProfile where
  "seller = \<lparr> profile_id = 1, telegramId = 7, profile_username = Some ''alice'',
      profile_displayName = Some ''Alice'', bio = None, phoneNumber = None,
      contactLinks = None, profileImageKey = None, isBanned = 0,
      profile_createdAt = ''2024-01-01 00:00:00'', profile_updatedAt = ''2024-01-01 00:00:00'' \<rparr>"

definition ownerFreeBump :: BumpListingInput where
  "ownerFreeBump = \<lparr> bump_listingId = 1, bump_userId = 7, isPaid = False \<rparr>"

definition ownerPaidBump :: BumpListingInput where
  "ownerPaidBump = \<lparr> bump_listingId = 1, bump_userId = 7, isPaid = True \<rparr>"

definition browseAll :: GetListingsInput where
  "browseAll = \<lparr> limit = 50, offset = 0, filter_category = None, priceMin = None,
      priceMax = None, search = None, sortBy = Some SortDate, sortOrder = Some Desc,
      filter_status = None, filter_userId = None \<rparr>"

definition retitle :: UpdateListingInput where
  "retitle = \<lparr> upd_title = Some ''Big lamp'', upd_description = None, upd_price = Some 1200,
      upd_category = None \<rparr>"

definition bannedDb :: database where
  "bannedDb = \<lparr> listings = [lamp], userProfiles = [seller\<lparr>isBanned := 1\<rparr>], listingImages = [] \<rparr>"

definition orphanDb :: database where
  "orphanDb = \<lparr> listings = [lamp], userProfiles = [], listingImages = [] \<rparr>"

definition mixedDb :: database where
  "mixedDb = \<lparr> listings = [lamp, archivedLamp\<lparr>listing_id := 2\<rparr>], userProfiles = [seller],
      listingImages = [] \<rparr>"

text \<open>A \<^verbatim>\<open>LIKE\<close> that matches nothing; the example requests carry no search term.\<close>

definition noLike :: "string \<Rightarrow> string \<Rightarrow> bool" where
  "noLike v p = False"

lemma lamp_created:
  "createListing ''2024-01-01T00:00:00.000Z'' 1704067200000 1 7 ''alice'' ''Alice''
     \<lparr> new_title = ''Lamp'', new_description = ''Desk lamp'', new_price = 1500,
       new_category = ''home'' \<rparr> []
   = ([lamp], lamp)"
  by (simp add: createListing_def EXPIRY_DEFAULT_DAYS_def lamp_def Let_def)

section \<open>Facts about the query primitives\<close>

lemma updateWhere_fst: "fst (updateWhere c f rows) = map (\<lambda>l. if c l then f l else l) rows"
  by (simp add: updateWhere_def)

lemma updateWhere_snd: "snd (updateWhere c f rows) = map f (filter c rows)"
  by (simp add: updateWhere_def)

lemma firstRow_filter: "firstRow (filter P xs) = find P xs"
  by (induction xs) (auto simp: firstRow_def)

lemma firstRow_map: "firstRow (map f xs) = map_option f (firstRow xs)"
  by (cases xs) (auto simp: firstRow_def)

text \<open>The row an update by id returns is the rewritten form of the row a select by id finds.\<close>

lemma returned_row:
  "firstRow (snd (updateWhere (\<lambda>l. listing_id l = i) f rows)) = map_option f (selectListingById i rows)"
  by (simp add: updateWhere_snd firstRow_map firstRow_filter selectListingById_def)

lemma select_after_update:
  assumes "\<And>l. listing_id (f l) = listing_id l"
  shows "selectListingById i (fst (updateWhere (\<lambda>l. listing_id l = i) f rows))
           = map_option f (selectListingById i rows)"
  unfolding selectListingById_def updateWhere_fst
  using assms by (induction rows) auto

section \<open>The bump engine\<close>

lemma hours_lt_iff:
  "hoursSinceLastBump now t < of_int BUMP_COOLDOWN_HOURS \<longleftrightarrow> now - t < 24 * 60 * 60 * 1000"
proof -
  have "hoursSinceLastBump now t < of_int BUMP_COOLDOWN_HOURS
          \<longleftrightarrow> (of_int (now - t) :: rat) < of_int 86400000"
    unfolding hoursSinceLastBump_def BUMP_COOLDOWN_HOURS_def
    by (simp add: divide_less_eq)
  also have "\<dots> \<longleftrightarrow> now - t < 86400000"
    by (simp only: of_int_less_iff)
  finally show ?thesis by simp
qed

text \<open>The hours reported are 24 less the whole hours elapsed.\<close>

lemma hoursUntil_div:
  "\<lceil>of_int BUMP_COOLDOWN_HOURS - hoursSinceLastBump now t\<rceil> = 24 - (now - t) div 3600000"
proof -
  define x :: rat where "x = of_int (now - t) / of_int 3600000"
  have "of_int BUMP_COOLDOWN_HOURS - hoursSinceLastBump now t = - x + of_int 24"
    unfolding hoursSinceLastBump_def BUMP_COOLDOWN_HOURS_def x_def by simp
  then have "\<lceil>of_int BUMP_COOLDOWN_HOURS - hoursSinceLastBump now t\<rceil> = \<lceil>- x\<rceil> + 24"
    by (simp only: ceiling_add_of_int)
  also have "\<dots> = 24 - \<lfloor>x\<rfloor>"
    by (simp add: ceiling_def)
  also have "\<lfloor>x\<rfloor> = (now - t) div 3600000"
    unfolding x_def by (simp only: floor_divide_of_int_eq)
  finally show ?thesis .
qed

lemma canBump_iff:
  "canBump (canBumpListing now lid uid rows) \<longleftrightarrow>
     (\<exists>l. selectListingById lid rows = Some l \<and> userId l = uid \<and>
        (case lastBumpedAt l of None \<Rightarrow> True
         | Some t \<Rightarrow> t = 0 \<or> 24 * 60 * 60 * 1000 \<le> now - t))"
  by (auto simp: canBumpListing_def hours_lt_iff Let_def split: option.splits)

lemma eligible_clock:
  assumes "24 * 60 * 60 * 1000 \<le> (checkedAt :: int)"
  shows "(case lastBumpedAt l of None \<Rightarrow> True
          | Some t \<Rightarrow> t = 0 \<or> 24 * 60 * 60 * 1000 \<le> checkedAt - t)
         \<longleftrightarrow> (lastBumpedAt l = None
              \<or> (\<exists>t. lastBumpedAt l = Some t \<and> 24 * 60 * 60 * 1000 \<le> checkedAt - t))"
  using assms by (cases "lastBumpedAt l") auto

lemma bumpListing_Inr_iff:
  "(\<exists>res. bumpListing checkedAt now nowIso input rows = Inr res) \<longleftrightarrow>
     canBump (canBumpListing checkedAt (bump_listingId input) (bump_userId input) rows)"
  by (auto simp: bumpListing_def Let_def split: prod.splits)

lemma bumpData_eq:
  "bumpData now nowIso paid l =
     l\<lparr>expiresAt := (if paid then now + 7 * 24 * 60 * 60 * 1000 else now + 3 * 24 * 60 * 60 * 1000),
       lastBumpedAt := Some now, bumpCount := bumpCount l + 1, status := ACTIVE,
       updatedAt := nowIso\<rparr>"
  by (simp add: bumpData_def EXPIRY_PAID_BUMP_DAYS_def EXPIRY_FREE_BUMP_DAYS_def)

lemma bumpData_id: "listing_id (bumpData now nowIso paid l) = listing_id l"
  by (simp add: bumpData_eq)

lemma bumpListing_success:
  assumes "canBump (canBumpListing checkedAt (bump_listingId input) (bump_userId input) rows)"
  shows "bumpListing checkedAt now nowIso input rows =
     Inr (fst (updateWhere (\<lambda>l. listing_id l = bump_listingId input)
                 (bumpData now nowIso (isPaid input)) rows),
          map_option (bumpData now nowIso (isPaid input))
            (selectListingById (bump_listingId input) rows))"
  using assms
  by (simp add: bumpListing_def Let_def returned_row split: prod.splits)
     (metis returned_row snd_conv)

text \<open>
  The tables a reader can see during a bump: the table before, and when the bump is not
  refused the table after its one update.
\<close>

lemma bumpListingStatements_success:
  assumes "canBump (canBumpListing checkedAt (bump_listingId input) (bump_userId input) rows)"
  shows "observableTables (bumpListingStatements checkedAt now nowIso input rows) rows =
           [rows, fst (updateWhere (\<lambda>l. listing_id l = bump_listingId input)
                         (bumpData now nowIso (isPaid input)) rows)]"
  using assms by (simp add: bumpListingStatements_def runStatement_def Let_def)

text \<open>
  C2. A successful bump performed at clock reading \<open>now\<close> finds the listing, and the row
  it returns and stores has \<open>expiresAt = now + 3 days\<close> for a free bump and
  \<open>now + 7 days\<close> for a paid one (whatever \<open>expiresAt\<close> was), \<open>lastBumpedAt = now\<close>,
  a \<open>bumpCount\<close> one above the old one and status active. Every row of the new table is
  the old row untouched or the old row with all five columns of the update written. The
  bump issues exactly one write statement, so the tables that can be seen while it runs are
  the table before and the table after and no other: in every table seen, every row is the
  old row or the fully written row, never a row with only some of the columns written.
\<close>

theorem bump_absolute_reset:
  assumes "bumpListing checkedAt now nowIso input rows = Inr (rows', returned)"
  shows "\<exists>old new.
           selectListingById (bump_listingId input) rows = Some old
         \<and> returned = Some new
         \<and> selectListingById (bump_listingId input) rows' = Some new
         \<and> expiresAt new = (if isPaid input then now + 7 * 24 * 60 * 60 * 1000
                             else now + 3 * 24 * 60 * 60 * 1000)
         \<and> lastBumpedAt new = Some now
         \<and> bumpCount new = bumpCount old + 1
         \<and> status new = ACTIVE
         \<and> length rows' = length rows
         \<and> (\<forall>i < length rows.
               if listing_id (rows ! i) = bump_listingId input
               then rows' ! i = (rows ! i)
                      \<lparr>expiresAt := expiresAt new, lastBumpedAt := Some now,
                       bumpCount := bumpCount (rows ! i) + 1,
                       status := ACTIVE, updatedAt := nowIso\<rparr>
               else rows' ! i = rows ! i)
         \<and> length (bumpListingStatements checkedAt now nowIso input rows) = 1
         \<and> observableTables (bumpListingStatements checkedAt now nowIso input rows) rows
             = [rows, rows']
         \<and> (\<forall>seen \<in> set (observableTables (bumpListingStatements checkedAt now nowIso input rows) rows).
               length seen = length rows
             \<and> (\<forall>i < length rows.
                   seen ! i = rows ! i
                 \<or> seen ! i = (rows ! i)
                      \<lparr>expiresAt := expiresAt new, lastBumpedAt := Some now,
                       bumpCount := bumpCount (rows ! i) + 1,
                       status := ACTIVE, updatedAt := nowIso\<rparr>))"
proof -
  let ?lid = "bump_listingId input"
  let ?set = "bumpData now nowIso (isPaid input)"
  let ?seen = "observableTables (bumpListingStatements checkedAt now nowIso input rows) rows"
  have ok: "canBump (canBumpListing checkedAt ?lid (bump_userId input) rows)"
    using assms bumpListing_Inr_iff by blast
  then obtain old where old: "selectListingById ?lid rows = Some old"
    by (auto simp: canBump_iff)
  have res: "rows' = fst (updateWhere (\<lambda>l. listing_id l = ?lid) ?set rows)"
            "returned = map_option ?set (selectListingById ?lid rows)"
    using assms bumpListing_success [OF ok, of now nowIso] by simp_all
  have sel: "selectListingById ?lid rows' = Some (?set old)"
    unfolding res(1) by (simp add: select_after_update bumpData_id old)
  have ret: "returned = Some (?set old)"
    using res(2) old by simp
  have rows: "\<forall>i < length rows.
               if listing_id (rows ! i) = ?lid
               then rows' ! i = (rows ! i)
                      \<lparr>expiresAt := expiresAt (?set old), lastBumpedAt := Some now,
                       bumpCount := bumpCount (rows ! i) + 1,
                       status := ACTIVE, updatedAt := nowIso\<rparr>
               else rows' ! i = rows ! i"
    unfolding res(1) by (simp add: updateWhere_fst bumpData_eq)
  have len: "length rows' = length rows"
    unfolding res(1) by (simp add: updateWhere_fst)
  have fields:
    "expiresAt (?set old) = (if isPaid input then now + 7 * 24 * 60 * 60 * 1000
                             else now + 3 * 24 * 60 * 60 * 1000)"
    "lastBumpedAt (?set old) = Some now" "bumpCount (?set old) = bumpCount old + 1"
    "status (?set old) = ACTIVE"
    by (simp_all add: bumpData_eq)
  have one: "length (bumpListingStatements checkedAt now nowIso input rows) = 1"
    using ok by (simp add: bumpListingStatements_def Let_def)
  have seen: "?seen = [rows, rows']"
    unfolding res(1) by (rule bumpListingStatements_success [OF ok])
  have whole: "\<forall>seen \<in> set ?seen.
               length seen = length rows
             \<and> (\<forall>i < length rows.
                   seen ! i = rows ! i
                 \<or> seen ! i = (rows ! i)
                      \<lparr>expiresAt := expiresAt (?set old), lastBumpedAt := Some now,
                       bumpCount := bumpCount (rows ! i) + 1,
                       status := ACTIVE, updatedAt := nowIso\<rparr>)"
  proof
    fix s assume "s \<in> set ?seen"
    then consider "s = rows" | "s = rows'"
      unfolding seen by auto
    then show "length s = length rows
             \<and> (\<forall>i < length rows.
                   s ! i = rows ! i
                 \<or> s ! i = (rows ! i)
                      \<lparr>expiresAt := expiresAt (?set old), lastBumpedAt := Some now,
                       bumpCount := bumpCount (rows ! i) + 1,
                       status := ACTIVE, updatedAt := nowIso\<rparr>)"
    proof cases
      case 1
      then show ?thesis by simp
    next
      case 2
      with len rows show ?thesis by metis
    qed
  qed
  show ?thesis
    using old sel ret rows len fields one seen whole by blast
qed

text \<open>
  The owner's free bump of the example listing on 2 January: the hypothesis of C2 holds
  there, and the theorem gives the four fields of the result and the two tables seen. The
  last equation is the contrast: the same five columns written by two statements, the
  counter first, would show a table in between whose row has the new \<open>bumpCount\<close> and
  the old \<open>expiresAt\<close>.
\<close>

theorem bump_absolute_reset_witness:
  "bumpListing 1704153600000 1704153600000 ''2024-01-02T00:00:00.000Z'' ownerFreeBump [lamp]
     = Inr ([bumpedLamp], Some bumpedLamp)
   \<and> expiresAt bumpedLamp = 1704153600000 + 3 * 24 * 60 * 60 * 1000
   \<and> lastBumpedAt bumpedLamp = Some 1704153600000
   \<and> bumpCount bumpedLamp = bumpCount lamp + 1
   \<and> status bumpedLamp = ACTIVE
   \<and> observableTables
        (bumpListingStatements 1704153600000 1704153600000 ''2024-01-02T00:00:00.000Z''
           ownerFreeBump [lamp]) [lamp]
      = [[lamp], [bumpedLamp]]
   \<and> observableTables
        [\<lparr> whereCond = (\<lambda>l. listing_id l = 1),
           setData = (\<lambda>l. l\<lparr>bumpCount := bumpCount l + 1\<rparr>) \<rparr>,
         \<lparr> whereCond = (\<lambda>l. listing_id l = 1),
           setData = (\<lambda>l. l\<lparr>expiresAt := 1704412800000, lastBumpedAt := Some 1704153600000,
                             status := ACTIVE, updatedAt := ''2024-01-02T00:00:00.000Z''\<rparr>) \<rparr>]
        [lamp]
      = [[lamp], [lamp\<lparr>bumpCount := 1\<rparr>], [bumpedLamp]]"
proof -
  have h: "bumpListing 1704153600000 1704153600000 ''2024-01-02T00:00:00.000Z'' ownerFreeBump [lamp]
     = Inr ([bumpedLamp], Some bumpedLamp)"
    by (simp add: bumpListing_def canBumpListing_def selectListingById_def updateWhere_def
        firstRow_def bumpData_def hoursSinceLastBump_def BUMP_COOLDOWN_HOURS_def
        EXPIRY_PAID_BUMP_DAYS_def EXPIRY_FREE_BUMP_DAYS_def Let_def lamp_def bumpedLamp_def ownerFreeBump_def)
  have s: "selectListingById (bump_listingId ownerFreeBump) [lamp] = Some lamp"
    by (simp add: selectListingById_def lamp_def bumpedLamp_def ownerFreeBump_def)
  have two: "observableTables
        [\<lparr> whereCond = (\<lambda>l. listing_id l = 1),
           setData = (\<lambda>l. l\<lparr>bumpCount := bumpCount l + 1\<rparr>) \<rparr>,
         \<lparr> whereCond = (\<lambda>l. listing_id l = 1),
           setData = (\<lambda>l. l\<lparr>expiresAt := 1704412800000, lastBumpedAt := Some 1704153600000,
                             status := ACTIVE, updatedAt := ''2024-01-02T00:00:00.000Z''\<rparr>) \<rparr>]
        [lamp]
      = [[lamp], [lamp\<lparr>bumpCount := 1\<rparr>], [bumpedLamp]]"
    by (simp add: runStatement_def updateWhere_def lamp_def bumpedLamp_def)
  from bump_absolute_reset [OF h] s show ?thesis
    using h two by (auto simp: ownerFreeBump_def)
qed

text \<open>
  C3. The clock that \<^verbatim>\<open>canBumpListing\<close> reads is \<open>checkedAt\<close>, a millisecond count
  since 1970 that is at least one day (any present-day clock; the hypothesis is needed
  only because the code treats a \<open>lastBumpedAt\<close> of 0 like an unset one). Then a bump
  succeeds if and only if the listing exists, the requester is its owner, and
  \<open>lastBumpedAt\<close> is unset or at least 24 hours before \<open>checkedAt\<close>. When the listing
  exists, the requester owns it and less than 24 hours have passed, the bump fails with
  the cooldown error, which carries the ceiling of 24 minus the hours since the last bump;
  \<^verbatim>\<open>canBumpListing\<close> reports the same number as \<^verbatim>\<open>hoursUntilNextBump\<close>.
\<close>

theorem bump_cooldown_enforcement:
  assumes clock: "24 * 60 * 60 * 1000 \<le> checkedAt"
  shows "((\<exists>res. bumpListing checkedAt now nowIso input rows = Inr res) \<longleftrightarrow>
            (\<exists>l. selectListingById (bump_listingId input) rows = Some l
                \<and> userId l = bump_userId input
                \<and> (lastBumpedAt l = None
                    \<or> (\<exists>t. lastBumpedAt l = Some t \<and> 24 * 60 * 60 * 1000 \<le> checkedAt - t))))
       \<and> (\<forall>l t. selectListingById (bump_listingId input) rows = Some l
                \<and> userId l = bump_userId input
                \<and> lastBumpedAt l = Some t \<and> checkedAt - t < 24 * 60 * 60 * 1000
             \<longrightarrow> bumpListing checkedAt now nowIso input rows
                   = Inl (CooldownError \<lceil>of_int BUMP_COOLDOWN_HOURS - hoursSinceLastBump checkedAt t\<rceil>)
               \<and> hoursUntilNextBump
                   (canBumpListing checkedAt (bump_listingId input) (bump_userId input) rows)
                   = Some \<lceil>of_int BUMP_COOLDOWN_HOURS - hoursSinceLastBump checkedAt t\<rceil>)"
proof (intro conjI allI impI)
  show "(\<exists>res. bumpListing checkedAt now nowIso input rows = Inr res) \<longleftrightarrow>
            (\<exists>l. selectListingById (bump_listingId input) rows = Some l
                \<and> userId l = bump_userId input
                \<and> (lastBumpedAt l = None
                    \<or> (\<exists>t. lastBumpedAt l = Some t \<and> 24 * 60 * 60 * 1000 \<le> checkedAt - t)))"
    unfolding bumpListing_Inr_iff canBump_iff eligible_clock [OF clock] ..
next
  fix l t
  assume h: "selectListingById (bump_listingId input) rows = Some l
                \<and> userId l = bump_userId input
                \<and> lastBumpedAt l = Some t \<and> checkedAt - t < 24 * 60 * 60 * 1000"
  then have "t \<noteq> 0" using clock by auto
  with h show "bumpListing checkedAt now nowIso input rows
                   = Inl (CooldownError \<lceil>of_int BUMP_COOLDOWN_HOURS - hoursSinceLastBump checkedAt t\<rceil>)"
    by (simp add: bumpListing_def canBumpListing_def hours_lt_iff Let_def)
  from h \<open>t \<noteq> 0\<close> show "hoursUntilNextBump
                   (canBumpListing checkedAt (bump_listingId input) (bump_userId input) rows)
                   = Some \<lceil>of_int BUMP_COOLDOWN_HOURS - hoursSinceLastBump checkedAt t\<rceil>"
    by (simp add: canBumpListing_def hours_lt_iff Let_def)
qed

text \<open>
  The listing bumped on 2 January, 00:00: an attempt 54 minutes later (23.1 hours
  remaining) is refused with 24 hours, an attempt 23 hours later with 1 hour, and the
  attempt at exactly 24 hours succeeds.
\<close>

theorem bump_cooldown_enforcement_witness:
  "(24 * 60 * 60 * 1000 :: int) \<le> 1704156840000
   \<and> bumpListing 1704156840000 1704156840000 ''2024-01-02T00:54:00.000Z'' ownerFreeBump [bumpedLamp]
       = Inl (CooldownError 24)
   \<and> bumpListing 1704236400000 1704236400000 ''2024-01-02T23:00:00.000Z'' ownerFreeBump [bumpedLamp]
       = Inl (CooldownError 1)
   \<and> (\<exists>res. bumpListing 1704240000000 1704240000000 ''2024-01-03T00:00:00.000Z'' ownerFreeBump
               [bumpedLamp] = Inr res)"
proof -
  have c1: "(24 * 60 * 60 * 1000 :: int) \<le> 1704156840000"
   and c2: "(24 * 60 * 60 * 1000 :: int) \<le> 1704236400000"
   and c3: "(24 * 60 * 60 * 1000 :: int) \<le> 1704240000000"
    by simp_all
  have s: "selectListingById (bump_listingId ownerFreeBump) [bumpedLamp] = Some bumpedLamp"
          "userId bumpedLamp = bump_userId ownerFreeBump"
          "lastBumpedAt bumpedLamp = Some 1704153600000"
    by (simp_all add: selectListingById_def lamp_def bumpedLamp_def ownerFreeBump_def)
  have a: "bumpListing 1704156840000 1704156840000 ''2024-01-02T00:54:00.000Z'' ownerFreeBump [bumpedLamp]
       = Inl (CooldownError 24)"
    using bump_cooldown_enforcement [OF c1, of 1704156840000 "''2024-01-02T00:54:00.000Z''"
        ownerFreeBump "[bumpedLamp]"] s
    by (simp add: hoursSinceLastBump_def BUMP_COOLDOWN_HOURS_def ceiling_eq_iff)
  have b: "bumpListing 1704236400000 1704236400000 ''2024-01-02T23:00:00.000Z'' ownerFreeBump [bumpedLamp]
       = Inl (CooldownError 1)"
    using bump_cooldown_enforcement [OF c2, of 1704236400000 "''2024-01-02T23:00:00.000Z''"
        ownerFreeBump "[bumpedLamp]"] s
    by (simp add: hoursSinceLastBump_def BUMP_COOLDOWN_HOURS_def)
  have c: "\<exists>res. bumpListing 1704240000000 1704240000000 ''2024-01-03T00:00:00.000Z'' ownerFreeBump
               [bumpedLamp] = Inr res"
    using bump_cooldown_enforcement [OF c3, of 1704240000000 "''2024-01-03T00:00:00.000Z''"
        ownerFreeBump "[bumpedLamp]"] s
    by simp
  show ?thesis using c1 a b c by blast
qed

text \<open>
  C5, as the code has it. A successful bump sets \<open>expiresAt\<close> to the bump time plus
  3 days (free) or 7 days (paid), whatever it was before. The new value is greater than
  the old one exactly when the old one lies before that instant, which is the case for
  every listing whose expiry has been reached; on a listing with more time left than the
  bump grants, \<open>expiresAt\<close> does not grow.
\<close>

theorem bump_expiry_reset_law:
  assumes "bumpListing checkedAt now nowIso input rows = Inr (rows', Some new)"
      and "selectListingById (bump_listingId input) rows = Some old"
  shows "expiresAt new = (if isPaid input then now + 7 * 24 * 60 * 60 * 1000
                          else now + 3 * 24 * 60 * 60 * 1000)
       \<and> (expiresAt old < expiresAt new \<longleftrightarrow>
            expiresAt old < (if isPaid input then now + 7 * 24 * 60 * 60 * 1000
                             else now + 3 * 24 * 60 * 60 * 1000))
       \<and> (expiresAt old \<le> now \<longrightarrow> expiresAt old < expiresAt new)"
proof -
  have ok: "canBump (canBumpListing checkedAt (bump_listingId input) (bump_userId input) rows)"
    using assms(1) bumpListing_Inr_iff by blast
  have "Some new = map_option (bumpData now nowIso (isPaid input)) (Some old)"
    using assms bumpListing_success [OF ok, of now nowIso] by simp
  then have "new = bumpData now nowIso (isPaid input) old"
    by simp
  then have e: "expiresAt new = (if isPaid input then now + 7 * 24 * 60 * 60 * 1000
                          else now + 3 * 24 * 60 * 60 * 1000)"
    by (simp add: bumpData_eq)
  show ?thesis
    unfolding e by auto
qed

text \<open>
  A second free bump of the free-bumped listing, one day after the first: both
  hypotheses of the law hold, and the expiry moves forward.
\<close>

theorem bump_expiry_reset_law_witness:
  "bumpListing 1704240000000 1704240000000 ''2024-01-03T00:00:00.000Z'' ownerFreeBump [bumpedLamp]
     = Inr ([bumpedLamp\<lparr>expiresAt := 1704499200000, lastBumpedAt := Some 1704240000000,
                bumpCount := 2, status := ACTIVE, updatedAt := ''2024-01-03T00:00:00.000Z''\<rparr>],
            Some (bumpedLamp\<lparr>expiresAt := 1704499200000, lastBumpedAt := Some 1704240000000,
                bumpCount := 2, status := ACTIVE, updatedAt := ''2024-01-03T00:00:00.000Z''\<rparr>))
   \<and> selectListingById (bump_listingId ownerFreeBump) [bumpedLamp] = Some bumpedLamp
   \<and> expiresAt bumpedLamp < 1704499200000"
proof -
  let ?new = "bumpedLamp\<lparr>expiresAt := 1704499200000, lastBumpedAt := Some 1704240000000,
                bumpCount := 2, status := ACTIVE, updatedAt := ''2024-01-03T00:00:00.000Z''\<rparr>"
  have h: "bumpListing 1704240000000 1704240000000 ''2024-01-03T00:00:00.000Z'' ownerFreeBump [bumpedLamp]
     = Inr ([?new], Some ?new)"
    by (simp add: bumpListing_def canBumpListing_def selectListingById_def updateWhere_def
        firstRow_def bumpData_def hoursSinceLastBump_def BUMP_COOLDOWN_HOURS_def
        EXPIRY_PAID_BUMP_DAYS_def EXPIRY_FREE_BUMP_DAYS_def Let_def lamp_def bumpedLamp_def ownerFreeBump_def)
  have s: "selectListingById (bump_listingId ownerFreeBump) [bumpedLamp] = Some bumpedLamp"
    by (simp add: selectListingById_def lamp_def bumpedLamp_def ownerFreeBump_def)
  from bump_expiry_reset_law [OF h s] have "expiresAt bumpedLamp < expiresAt ?new"
    by (simp add: lamp_def bumpedLamp_def ownerFreeBump_def)
  then show ?thesis using h s by simp
qed

text \<open>
  C5 as stated fails. The owner pays for a bump on 2 January, which sets the expiry to
  9 January; the free bump one day later succeeds and sets it to 6 January.
\<close>

theorem bump_expiry_decreases_counterexample:
  "bumpListing 1704153600000 1704153600000 ''2024-01-02T00:00:00.000Z'' ownerPaidBump [lamp]
     = Inr ([paidLamp], Some paidLamp)
   \<and> bumpListing 1704240000000 1704240000000 ''2024-01-03T00:00:00.000Z'' ownerFreeBump [paidLamp]
     = Inr ([paidLamp\<lparr>expiresAt := 1704499200000, lastBumpedAt := Some 1704240000000,
                bumpCount := 2, status := ACTIVE, updatedAt := ''2024-01-03T00:00:00.000Z''\<rparr>],
            Some (paidLamp\<lparr>expiresAt := 1704499200000, lastBumpedAt := Some 1704240000000,
                bumpCount := 2, status := ACTIVE, updatedAt := ''2024-01-03T00:00:00.000Z''\<rparr>))
   \<and> expiresAt paidLamp = 1704758400000
   \<and> \<not> (expiresAt paidLamp < 1704499200000)"
  by (simp add: bumpListing_def canBumpListing_def selectListingById_def updateWhere_def
        firstRow_def bumpData_def hoursSinceLastBump_def BUMP_COOLDOWN_HOURS_def
        EXPIRY_PAID_BUMP_DAYS_def EXPIRY_FREE_BUMP_DAYS_def Let_def lamp_def paidLamp_def ownerPaidBump_def ownerFreeBump_def)

text \<open>
  C1, at the input where the code departs from it. An administrator archives the example
  listing; the owner's free bump a day later is not refused: it succeeds and the listing
  is active again.
\<close>

theorem archived_listing_bump_reactivates:
  "archiveListing ''2024-01-02T00:00:00.000Z'' (Some ''token'') (Replied True) 1 ''prohibited item'' [lamp]
     = ([archivedLamp], [], Inr (Some archivedLamp))
   \<and> status archivedLamp = ARCHIVED
   \<and> bumpListing 1704240000000 1704240000000 ''2024-01-03T00:00:00.000Z'' ownerFreeBump [archivedLamp]
     = Inr ([archivedLamp\<lparr>expiresAt := 1704499200000, lastBumpedAt := Some 1704240000000,
                bumpCount := 1, status := ACTIVE, updatedAt := ''2024-01-03T00:00:00.000Z''\<rparr>],
            Some (archivedLamp\<lparr>expiresAt := 1704499200000, lastBumpedAt := Some 1704240000000,
                bumpCount := 1, status := ACTIVE, updatedAt := ''2024-01-03T00:00:00.000Z''\<rparr>))"
  by (simp add: bumpListing_def canBumpListing_def selectListingById_def updateWhere_def
        firstRow_def bumpData_def hoursSinceLastBump_def BUMP_COOLDOWN_HOURS_def
        EXPIRY_PAID_BUMP_DAYS_def EXPIRY_FREE_BUMP_DAYS_def Let_def lamp_def archivedLamp_def ownerFreeBump_def archiveListing_def sendArchiveNotification_def)

section \<open>The expiry sweep\<close>

lemma sweep_rows:
  "fst (expireOldListings now nowIso rows) =
     map (\<lambda>l. if status l = ACTIVE \<and> expiresAt l \<le> now
               then l\<lparr>status := EXPIRED, updatedAt := nowIso\<rparr> else l) rows"
  by (simp add: expireOldListings_def updateWhere_fst isStale_def)

lemma sweep_returned:
  "snd (expireOldListings now nowIso rows) =
     map (\<lambda>l. l\<lparr>status := EXPIRED, updatedAt := nowIso\<rparr>)
       (filter (\<lambda>l. status l = ACTIVE \<and> expiresAt l \<le> now) rows)"
proof -
  have "isStale now = (\<lambda>l. status l = ACTIVE \<and> expiresAt l \<le> now)"
    by (simp add: isStale_def fun_eq_iff)
  then show ?thesis
    by (simp add: expireOldListings_def updateWhere_snd)
qed

lemma sweep_nothing_stale:
  assumes "\<forall>l \<in> set rows. \<not> (status l = ACTIVE \<and> expiresAt l \<le> now)"
  shows "expireOldListings now nowIso rows = (rows, [])"
proof -
  have "fst (expireOldListings now nowIso rows) = rows"
    unfolding sweep_rows using assms by (intro map_idI) auto
  moreover have "snd (expireOldListings now nowIso rows) = []"
    unfolding sweep_returned using assms by (simp add: filter_empty_conv)
  ultimately show ?thesis by (simp add: prod_eq_iff)
qed

text \<open>A row that is active after a sweep was there before, and its expiry lies ahead.\<close>

lemma swept_row_cases:
  assumes "l' \<in> set (fst (expireOldListings now nowIso rows))" "status l' = ACTIVE"
  shows "l' \<in> set rows \<and> now < expiresAt l'"
  using assms unfolding sweep_rows by (auto split: if_splits)

text \<open>
  The half of C1 that the code keeps: the sweep leaves an archived row as it is, whatever
  its \<open>expiresAt\<close>.
\<close>

lemma sweep_never_alters_archived:
  assumes "i < length rows" "status (rows ! i) = ARCHIVED"
  shows "fst (expireOldListings now nowIso rows) ! i = rows ! i"
  using assms unfolding sweep_rows by simp

text \<open>
  C4. One sweep at clock reading \<open>now\<close> rewrites exactly the rows that are active with
  \<open>expiresAt \<le> now\<close>, to status expired and the new \<open>updatedAt\<close>; every other row is
  unchanged, and the rows returned are the rewritten ones. A second sweep on the result,
  at the same reading, changes nothing and returns no row; so does a second sweep at any
  other reading \<open>later\<close>, as long as no active listing has its expiry after \<open>now\<close> and
  up to \<open>later\<close>.
\<close>

theorem sweep_correct_and_idempotent:
  assumes "expireOldListings now nowIso rows = (rows', swept)"
  shows "length rows' = length rows
       \<and> (\<forall>i < length rows.
             if status (rows ! i) = ACTIVE \<and> expiresAt (rows ! i) \<le> now
             then rows' ! i = (rows ! i)\<lparr>status := EXPIRED, updatedAt := nowIso\<rparr>
             else rows' ! i = rows ! i)
       \<and> swept = map (\<lambda>l. l\<lparr>status := EXPIRED, updatedAt := nowIso\<rparr>)
                    (filter (\<lambda>l. status l = ACTIVE \<and> expiresAt l \<le> now) rows)
       \<and> expireOldListings now nowIso2 rows' = (rows', [])
       \<and> ((\<forall>l \<in> set rows. status l = ACTIVE \<longrightarrow> expiresAt l \<le> now \<or> later < expiresAt l)
            \<longrightarrow> expireOldListings later nowIso2 rows' = (rows', []))"
proof -
  have r: "rows' = fst (expireOldListings now nowIso rows)"
    and s: "swept = snd (expireOldListings now nowIso rows)"
    using assms by simp_all
  have len: "length rows' = length rows"
    unfolding r sweep_rows by simp
  have each: "\<forall>i < length rows.
             if status (rows ! i) = ACTIVE \<and> expiresAt (rows ! i) \<le> now
             then rows' ! i = (rows ! i)\<lparr>status := EXPIRED, updatedAt := nowIso\<rparr>
             else rows' ! i = rows ! i"
    unfolding r sweep_rows by simp
  have again: "expireOldListings now nowIso2 rows' = (rows', [])"
  proof (rule sweep_nothing_stale, rule ballI)
    fix l assume "l \<in> set rows'"
    then show "\<not> (status l = ACTIVE \<and> expiresAt l \<le> now)"
      using swept_row_cases [of l now nowIso rows] unfolding r by auto
  qed
  have later: "expireOldListings later nowIso2 rows' = (rows', [])"
    if quiet: "\<forall>l \<in> set rows. status l = ACTIVE \<longrightarrow> expiresAt l \<le> now \<or> later < expiresAt l"
  proof (rule sweep_nothing_stale, rule ballI)
    fix l assume "l \<in> set rows'"
    then have "status l = ACTIVE \<Longrightarrow> l \<in> set rows \<and> now < expiresAt l"
      using swept_row_cases [of l now nowIso rows] unfolding r by auto
    with quiet show "\<not> (status l = ACTIVE \<and> expiresAt l \<le> later)"
      by fastforce
  qed
  show ?thesis
    using len each again later s sweep_returned [of now nowIso rows] by simp
qed

text \<open>
  A table with a stale active listing, an archived one past its expiry and an active one
  with time left, swept on 5 January: only the first row changes, and a second sweep, at
  the same instant or a second later, changes nothing.
\<close>

theorem sweep_correct_and_idempotent_witness:
  "expireOldListings 1704412800000 ''2024-01-05T00:00:00.000Z''
       [lamp, archivedLamp\<lparr>listing_id := 2\<rparr>, bumpedLamp\<lparr>listing_id := 3, expiresAt := 1704499200000\<rparr>]
     = ([lamp\<lparr>status := EXPIRED, updatedAt := ''2024-01-05T00:00:00.000Z''\<rparr>,
         archivedLamp\<lparr>listing_id := 2\<rparr>,
         bumpedLamp\<lparr>listing_id := 3, expiresAt := 1704499200000\<rparr>],
        [lamp\<lparr>status := EXPIRED, updatedAt := ''2024-01-05T00:00:00.000Z''\<rparr>])
   \<and> expireOldListings 1704412800000 ''2024-01-05T00:00:01.000Z''
       [lamp\<lparr>status := EXPIRED, updatedAt := ''2024-01-05T00:00:00.000Z''\<rparr>,
         archivedLamp\<lparr>listing_id := 2\<rparr>,
         bumpedLamp\<lparr>listing_id := 3, expiresAt := 1704499200000\<rparr>]
     = ([lamp\<lparr>status := EXPIRED, updatedAt := ''2024-01-05T00:00:00.000Z''\<rparr>,
         archivedLamp\<lparr>listing_id := 2\<rparr>,
         bumpedLamp\<lparr>listing_id := 3, expiresAt := 1704499200000\<rparr>], [])
   \<and> expireOldListings 1704412801000 ''2024-01-05T00:00:01.000Z''
       [lamp\<lparr>status := EXPIRED, updatedAt := ''2024-01-05T00:00:00.000Z''\<rparr>,
         archivedLamp\<lparr>listing_id := 2\<rparr>,
         bumpedLamp\<lparr>listing_id := 3, expiresAt := 1704499200000\<rparr>]
     = ([lamp\<lparr>status := EXPIRED, updatedAt := ''2024-01-05T00:00:00.000Z''\<rparr>,
         archivedLamp\<lparr>listing_id := 2\<rparr>,
         bumpedLamp\<lparr>listing_id := 3, expiresAt := 1704499200000\<rparr>], [])"
proof -
  have h: "expireOldListings 1704412800000 ''2024-01-05T00:00:00.000Z''
       [lamp, archivedLamp\<lparr>listing_id := 2\<rparr>, bumpedLamp\<lparr>listing_id := 3, expiresAt := 1704499200000\<rparr>]
     = ([lamp\<lparr>status := EXPIRED, updatedAt := ''2024-01-05T00:00:00.000Z''\<rparr>,
         archivedLamp\<lparr>listing_id := 2\<rparr>,
         bumpedLamp\<lparr>listing_id := 3, expiresAt := 1704499200000\<rparr>],
        [lamp\<lparr>status := EXPIRED, updatedAt := ''2024-01-05T00:00:00.000Z''\<rparr>])"
    by (simp add: expireOldListings_def updateWhere_def isStale_def lamp_def archivedLamp_def bumpedLamp_def)
  have q: "\<forall>l \<in> set [lamp, archivedLamp\<lparr>listing_id := 2\<rparr>,
                       bumpedLamp\<lparr>listing_id := 3, expiresAt := 1704499200000\<rparr>].
             status l = ACTIVE \<longrightarrow> expiresAt l \<le> 1704412800000 \<or> 1704412801000 < expiresAt l"
    by (simp add: lamp_def archivedLamp_def bumpedLamp_def)
  from sweep_correct_and_idempotent [OF h, of "''2024-01-05T00:00:01.000Z''" 1704412801000] q
  show ?thesis
    using h by blast
qed

section \<open>The list queries\<close>

lemma set_orderRows: "set (orderRows input proj rows) = set rows"
  by (simp add: orderRows_def)

lemma page_subset: "set (take n (drop m xs)) \<subseteq> set xs"
  using set_take_subset set_drop_subset by fast

lemma allHold_status:
  "allHold (listingConditions like input) l \<Longrightarrow> statusCondition input l"
  by (simp add: allHold_def listingConditions_def)

lemma statusCondition_default:
  "filter_status input = None \<or> filter_status input = Some [] \<Longrightarrow>
     statusCondition input l \<longleftrightarrow> status l = ACTIVE"
  by (auto simp: statusCondition_def)

lemma getListings_sound:
  assumes "l \<in> set (getListings like input rows)"
  shows "l \<in> set rows \<and> allHold (listingConditions like input) l"
proof -
  have "l \<in> set (orderRows input (\<lambda>l. l) (filter (allHold (listingConditions like input)) rows))"
    using assms page_subset unfolding getListings_def by fast
  then show ?thesis
    by (simp add: set_orderRows)
qed

text \<open>What the left join pairs a listing with.\<close>

lemma leftJoin_sound:
  assumes "(l, po) \<in> set (leftJoinProfiles ls ps)"
  shows "l \<in> set ls \<and> (case po of None \<Rightarrow> \<forall>p \<in> set ps. telegramId p \<noteq> userId l
                         | Some p \<Rightarrow> p \<in> set ps \<and> telegramId p = userId l)"
proof -
  from assms obtain l0 where l0: "l0 \<in> set ls"
    and mem: "(l, po) \<in> set (case filter (\<lambda>p. telegramId p = userId l0) ps of
                         [] \<Rightarrow> [(l0, None)]
                       | m # ms \<Rightarrow> map (\<lambda>p. (l0, Some p)) (m # ms))"
    unfolding leftJoinProfiles_def by auto
  show ?thesis
  proof (cases "filter (\<lambda>p. telegramId p = userId l0) ps")
    case Nil
    with mem have "l = l0" "po = None" by simp_all
    moreover from Nil have "\<forall>p \<in> set ps. telegramId p \<noteq> userId l0"
      by (simp add: filter_empty_conv)
    ultimately show ?thesis using l0 by simp
  next
    case (Cons m ms)
    with mem obtain p where p: "p \<in> set (filter (\<lambda>p. telegramId p = userId l0) ps)"
      and "l = l0" "po = Some p"
      by auto
    then show ?thesis using l0 by simp
  qed
qed

lemma allHold_joined:
  "allHold (notBanned # map (\<lambda>c r. c (fst r)) conds) r \<longleftrightarrow> notBanned r \<and> allHold conds (fst r)"
  by (simp add: allHold_def list_all_iff)

lemma withImages_fields:
  "listing_id (withImages db l) = listing_id l"
  "userId (withImages db l) = userId l"
  "status (withImages db l) = status l"
  by (simp_all add: withImages_def Let_def listing.defs)

text \<open>
  Every element of the browse result comes from a listing of the table that satisfies the
  conditions and is joined to a profile of its owner that is not banned.
\<close>

lemma getListingsWithImages_sound:
  assumes "r \<in> set (getListingsWithImages like input db)"
  shows "\<exists>l p. r = withImages db l \<and> l \<in> set (listings db) \<and> p \<in> set (userProfiles db)
             \<and> telegramId p = userId l \<and> isBanned p = 0
             \<and> allHold (listingConditions like input) l"
proof -
  let ?joined = "leftJoinProfiles (listings db) (userProfiles db)"
  let ?selected =
    "filter (allHold (notBanned # map (\<lambda>c r. c (fst r)) (listingConditions like input))) ?joined"
  from assms obtain jr where r: "r = withImages db (fst jr)"
    and "jr \<in> set (take (limit input) (drop (offset input) (orderRows input fst ?selected)))"
    unfolding getListingsWithImages_def Let_def by auto
  then have "jr \<in> set (orderRows input fst ?selected)"
    using page_subset by fast
  then have jr: "jr \<in> set ?joined" "notBanned jr" "allHold (listingConditions like input) (fst jr)"
    by (simp_all add: set_orderRows allHold_joined)
  obtain l po where lp: "jr = (l, po)" by (cases jr)
  from jr(2) lp obtain p where po: "po = Some p" and unbanned: "isBanned p = 0"
    by (auto simp: notBanned_def split: option.splits)
  from leftJoin_sound [of l po] jr(1) lp po
  have "l \<in> set (listings db)" "p \<in> set (userProfiles db)" "telegramId p = userId l"
    by simp_all
  with r lp unbanned jr(3) show ?thesis
    by auto
qed

text \<open>
  C6. When the status filter of a list query is omitted or empty, every listing that
  \<^verbatim>\<open>getListings\<close> returns, every listing that \<^verbatim>\<open>getListingsWithImages\<close> returns and
  every listing in the response of \<^verbatim>\<open>getAllListings\<close> has status active, for every
  table and every other filter.
\<close>

theorem default_visibility:
  assumes "filter_status input = None \<or> filter_status input = Some []"
  shows "(\<forall>l \<in> set (getListings like input rows). status l = ACTIVE)
       \<and> (\<forall>r \<in> set (getListingsWithImages like input db). status r = ACTIVE)
       \<and> (\<forall>r \<in> set (resp_listings (snd (getAllListings like now nowIso input db))).
             status r = ACTIVE)"
proof (intro conjI ballI)
  fix l assume "l \<in> set (getListings like input rows)"
  then show "status l = ACTIVE"
    using getListings_sound allHold_status statusCondition_default [OF assms] by blast
next
  fix r assume "r \<in> set (getListingsWithImages like input db)"
  then show "status r = ACTIVE"
    using getListingsWithImages_sound allHold_status statusCondition_default [OF assms]
      withImages_fields(3) by metis
next
  fix r assume "r \<in> set (resp_listings (snd (getAllListings like now nowIso input db)))"
  then have "r \<in> set (getListingsWithImages like input
                 (db\<lparr>listings := fst (expireOldListings now nowIso (listings db))\<rparr>))"
    by (simp add: getAllListings_def Let_def createPaginationResponse_def)
  then show "status r = ACTIVE"
    using getListingsWithImages_sound allHold_status statusCondition_default [OF assms]
      withImages_fields(3) by metis
qed

text \<open>
  A table with an active and an archived listing of the same seller, browsed with the
  default request: only the active one is returned.
\<close>

theorem default_visibility_witness:
  "(filter_status browseAll = None \<or> filter_status browseAll = Some [])
   \<and> getListings noLike browseAll (listings mixedDb) = [lamp]
   \<and> list_all (\<lambda>l. status l = ACTIVE) (getListings noLike browseAll (listings mixedDb))
   \<and> list_all (\<lambda>r. status r = ACTIVE) (getListingsWithImages noLike browseAll mixedDb)
   \<and> map status (listings mixedDb) = [ACTIVE, ARCHIVED]"
proof -
  have h: "filter_status browseAll = None \<or> filter_status browseAll = Some []"
    by (simp add: browseAll_def)
  have e: "getListings noLike browseAll (listings mixedDb) = [lamp]"
    by (simp add: getListings_def allHold_def listingConditions_def statusCondition_def orderRows_def
        Let_def browseAll_def mixedDb_def lamp_def archivedLamp_def seller_def noLike_def)
  have m: "map status (listings mixedDb) = [ACTIVE, ARCHIVED]"
    by (simp add: browseAll_def mixedDb_def lamp_def archivedLamp_def seller_def noLike_def)
  from default_visibility [OF h, of noLike "listings mixedDb" mixedDb] show ?thesis
    using h e m unfolding list_all_iff by blast
qed

text \<open>
  C9. Every listing in a result of the browse query has an owner with a profile row whose
  \<open>isBanned\<close> is 0. So when user \<open>uid\<close> has no profile row at all, no listing of \<open>uid\<close> is
  in any result, whatever the listing's status and whatever the filters.
\<close>

theorem browse_requires_unbanned_profile:
  "(\<forall>r \<in> set (getListingsWithImages like input db).
       \<exists>p \<in> set (userProfiles db). telegramId p = userId r \<and> isBanned p = 0)
 \<and> ((\<forall>p \<in> set (userProfiles db). telegramId p \<noteq> uid)
      \<longrightarrow> (\<forall>r \<in> set (getListingsWithImages like input db). userId r \<noteq> uid))"
proof -
  have a: "\<forall>r \<in> set (getListingsWithImages like input db).
       \<exists>p \<in> set (userProfiles db). telegramId p = userId r \<and> isBanned p = 0"
  proof
    fix r assume "r \<in> set (getListingsWithImages like input db)"
    then obtain l p where "r = withImages db l" "p \<in> set (userProfiles db)"
       "telegramId p = userId l" "isBanned p = 0"
      using getListingsWithImages_sound by blast
    then show "\<exists>p \<in> set (userProfiles db). telegramId p = userId r \<and> isBanned p = 0"
      by (auto simp: withImages_fields)
  qed
  then show ?thesis by metis
qed

text \<open>
  The active example listing in a database without any profile: its owner, user 7, has no
  profile row, and no listing of user 7 is returned.
\<close>

theorem browse_requires_unbanned_profile_witness:
  "userProfiles orphanDb = []
   \<and> list_all (\<lambda>r. userId r \<noteq> 7) (getListingsWithImages noLike browseAll orphanDb)
   \<and> listings orphanDb = [lamp] \<and> userId lamp = 7 \<and> status lamp = ACTIVE"
proof -
  have e: "userProfiles orphanDb = []" "listings orphanDb = [lamp]" "userId lamp = 7"
    "status lamp = ACTIVE"
    by (simp_all add: orphanDb_def lamp_def)
  then have h: "\<forall>p \<in> set (userProfiles orphanDb). telegramId p \<noteq> 7"
    by simp
  from browse_requires_unbanned_profile [of noLike browseAll orphanDb 7] h
  have "\<forall>r \<in> set (getListingsWithImages noLike browseAll orphanDb). userId r \<noteq> 7"
    by blast
  then show ?thesis
    using e unfolding list_all_iff by blast
qed

text \<open>
  What \<^verbatim>\<open>getUserListings\<close> answers to any viewer, an administrator included: only
  listings whose owner has a profile with \<open>isBanned = 0\<close>.
\<close>

lemma getUserListings_unbanned_only:
  "\<forall>r \<in> set (resp_listings (snd (getUserListings like now nowIso viewerRole uid filters db))).
     \<exists>p \<in> set (userProfiles db). telegramId p = userId r \<and> isBanned p = 0"
proof
  fix r
  assume "r \<in> set (resp_listings (snd (getUserListings like now nowIso viewerRole uid filters db)))"
  then have "r \<in> set (getListingsWithImages like (filters\<lparr>filter_userId := Some uid\<rparr>)
                 (db\<lparr>listings := fst (expireOldListings now nowIso (listings db))\<rparr>))"
    by (auto simp: getUserListings_def Let_def createPaginationResponse_def split: if_splits)
  then obtain l p
    where "r = withImages (db\<lparr>listings := fst (expireOldListings now nowIso (listings db))\<rparr>) l"
     "p \<in> set (userProfiles db)" "telegramId p = userId l" "isBanned p = 0"
    using getListingsWithImages_sound by fastforce
  then show "\<exists>p \<in> set (userProfiles db). telegramId p = userId r \<and> isBanned p = 0"
    by (auto simp: withImages_fields)
qed

text \<open>
  C7, at the input where the code departs from it. User 7 is banned and has one active
  listing. An administrator asks for the listings of user 7: the handler passes the
  administrator on to the browse query, whose condition \<open>isBanned = 0\<close> then removes the
  listing, and the answer is empty. \<^verbatim>\<open>getAllListings\<close>, which never looks at the
  requester, answers the same.
\<close>

theorem admin_cannot_see_banned_listings:
  "getProfile 7 (userProfiles bannedDb) = Some (seller\<lparr>isBanned := 1\<rparr>)
   \<and> getUserListings noLike 1704153600000 ''2024-01-02T00:00:00.000Z'' (Some ''admin'') 7 browseAll bannedDb
       = (bannedDb, \<lparr> resp_listings = [], resp_limit = 50, resp_offset = 0, hasMore = False \<rparr>)
   \<and> getAllListings noLike 1704153600000 ''2024-01-02T00:00:00.000Z'' browseAll bannedDb
       = (bannedDb, \<lparr> resp_listings = [], resp_limit = 50, resp_offset = 0, hasMore = False \<rparr>)
   \<and> listings bannedDb = [lamp] \<and> status lamp = ACTIVE \<and> userId lamp = 7"
  by (simp add: getUserListings_def getAllListings_def getProfile_def
      expireOldListings_def isStale_def updateWhere_def getListingsWithImages_def
      leftJoinProfiles_def allHold_def notBanned_def listingConditions_def statusCondition_def
      orderRows_def createPaginationResponse_def Let_def bannedDb_def seller_def lamp_def browseAll_def noLike_def)

section \<open>The administrative archive\<close>

text \<open>
  C8. For every listing that exists, of any status and owner and at any time since its
  last bump, \<^verbatim>\<open>archiveListing\<close> writes status archived and \<open>updatedAt = now\<close> to it and
  answers with success and the archived row. The table and the answer are the same for
  every bot token and every outcome of the delivery (a thrown \<^verbatim>\<open>fetch\<close>, an unreadable
  body, a refusal); the delivery only decides the lines logged.
\<close>

theorem archive_unconditional:
  assumes "selectListingById lid rows = Some l"
  shows "archiveListing now botToken reply lid why rows =
           (map (\<lambda>r. if listing_id r = lid then r\<lparr>status := ARCHIVED, updatedAt := now\<rparr> else r) rows,
            sendArchiveNotification botToken reply (userId l) (title l) why,
            Inr (Some (l\<lparr>status := ARCHIVED, updatedAt := now\<rparr>)))
       \<and> selectListingById lid (fst (archiveListing now botToken reply lid why rows))
           = Some (l\<lparr>status := ARCHIVED, updatedAt := now\<rparr>)"
proof -
  let ?set = "\<lambda>r. r\<lparr>status := ARCHIVED, updatedAt := now\<rparr>"
  have a: "archiveListing now botToken reply lid why rows =
           (fst (updateWhere (\<lambda>r. listing_id r = lid) ?set rows),
            sendArchiveNotification botToken reply (userId l) (title l) why,
            Inr (firstRow (snd (updateWhere (\<lambda>r. listing_id r = lid) ?set rows))))"
    using assms by (simp add: archiveListing_def Let_def split: prod.splits)
  have b: "selectListingById lid (fst (updateWhere (\<lambda>r. listing_id r = lid) ?set rows)) = Some (?set l)"
    by (subst select_after_update) (simp_all add: assms)
  show ?thesis
    unfolding a using b by (simp add: returned_row assms updateWhere_fst)
qed

text \<open>
  The listing bumped twelve hours earlier is archived while the call to Telegram throws:
  the archive succeeds, and the failure is one logged line.
\<close>

theorem archive_unconditional_witness:
  "selectListingById 1 [bumpedLamp] = Some bumpedLamp
   \<and> archiveListing ''2024-01-02T12:00:00.000Z'' (Some ''token'') FetchThrows 1 ''prohibited item''
        [bumpedLamp]
     = ([bumpedLamp\<lparr>status := ARCHIVED, updatedAt := ''2024-01-02T12:00:00.000Z''\<rparr>],
        [''Error sending Telegram notification:''],
        Inr (Some (bumpedLamp\<lparr>status := ARCHIVED, updatedAt := ''2024-01-02T12:00:00.000Z''\<rparr>)))"
proof -
  have h: "selectListingById 1 [bumpedLamp] = Some bumpedLamp"
    by (simp add: selectListingById_def lamp_def bumpedLamp_def)
  from archive_unconditional [OF h, of "''2024-01-02T12:00:00.000Z''" "Some ''token''" FetchThrows
      "''prohibited item''"]
  show ?thesis
    using h by (simp add: sendArchiveNotification_def lamp_def bumpedLamp_def)
qed

section \<open>Content updates\<close>

lemma updateData_frame:
  "listing_id (updateData now input l) = listing_id l"
  "userId (updateData now input l) = userId l"
  "username (updateData now input l) = username l"
  "displayName (updateData now input l) = displayName l"
  "status (updateData now input l) = status l"
  "expiresAt (updateData now input l) = expiresAt l"
  "lastBumpedAt (updateData now input l) = lastBumpedAt l"
  "bumpCount (updateData now input l) = bumpCount l"
  "starCount (updateData now input l) = starCount l"
  "paymentId (updateData now input l) = paymentId l"
  "isPaymentPending (updateData now input l) = isPaymentPending l"
  "createdAt (updateData now input l) = createdAt l"
  by (simp_all add: updateData_def Let_def split: option.splits)

text \<open>
  C10. \<^verbatim>\<open>updateListing\<close> keeps the number and order of the rows, and in every row the
  columns other than title, content, price, category and \<open>updatedAt\<close> are what they were:
  id, owner, \<open>createdAt\<close>, status, \<open>expiresAt\<close>, \<open>lastBumpedAt\<close>, \<open>bumpCount\<close> and the
  remaining ones. A row with another id or another owner is unchanged as a whole, and when
  no row with the given id belongs to the given user the table is unchanged and no row is
  returned.
\<close>

theorem update_frame:
  assumes "updateListing now lid uid input rows = (rows', returned)"
  shows "length rows' = length rows
       \<and> (\<forall>i < length rows.
              listing_id (rows' ! i) = listing_id (rows ! i)
            \<and> userId (rows' ! i) = userId (rows ! i)
            \<and> username (rows' ! i) = username (rows ! i)
            \<and> displayName (rows' ! i) = displayName (rows ! i)
            \<and> status (rows' ! i) = status (rows ! i)
            \<and> expiresAt (rows' ! i) = expiresAt (rows ! i)
            \<and> lastBumpedAt (rows' ! i) = lastBumpedAt (rows ! i)
            \<and> bumpCount (rows' ! i) = bumpCount (rows ! i)
            \<and> starCount (rows' ! i) = starCount (rows ! i)
            \<and> paymentId (rows' ! i) = paymentId (rows ! i)
            \<and> isPaymentPending (rows' ! i) = isPaymentPending (rows ! i)
            \<and> createdAt (rows' ! i) = createdAt (rows ! i)
            \<and> (listing_id (rows ! i) \<noteq> lid \<or> userId (rows ! i) \<noteq> uid \<longrightarrow> rows' ! i = rows ! i))
       \<and> ((\<forall>l \<in> set rows. listing_id l = lid \<longrightarrow> userId l \<noteq> uid)
            \<longrightarrow> rows' = rows \<and> returned = None)"
proof -
  let ?c = "\<lambda>l. listing_id l = lid \<and> userId l = uid"
  have r: "rows' = map (\<lambda>l. if ?c l then updateData now input l else l) rows"
    and ret: "returned = firstRow (map (updateData now input) (filter ?c rows))"
    using assms by (simp_all add: updateListing_def updateWhere_def)
  have len: "length rows' = length rows"
    unfolding r by simp
  have each: "\<forall>i < length rows.
              listing_id (rows' ! i) = listing_id (rows ! i)
            \<and> userId (rows' ! i) = userId (rows ! i)
            \<and> username (rows' ! i) = username (rows ! i)
            \<and> displayName (rows' ! i) = displayName (rows ! i)
            \<and> status (rows' ! i) = status (rows ! i)
            \<and> expiresAt (rows' ! i) = expiresAt (rows ! i)
            \<and> lastBumpedAt (rows' ! i) = lastBumpedAt (rows ! i)
            \<and> bumpCount (rows' ! i) = bumpCount (rows ! i)
            \<and> starCount (rows' ! i) = starCount (rows ! i)
            \<and> paymentId (rows' ! i) = paymentId (rows ! i)
            \<and> isPaymentPending (rows' ! i) = isPaymentPending (rows ! i)
            \<and> createdAt (rows' ! i) = createdAt (rows ! i)
            \<and> (listing_id (rows ! i) \<noteq> lid \<or> userId (rows ! i) \<noteq> uid \<longrightarrow> rows' ! i = rows ! i)"
    unfolding r by (simp add: updateData_frame)
  have none: "rows' = rows \<and> returned = None"
    if "\<forall>l \<in> set rows. listing_id l = lid \<longrightarrow> userId l \<noteq> uid"
  proof -
    from that have "filter ?c rows = []"
      by (auto simp: filter_empty_conv)
    moreover from that have "rows' = rows"
      unfolding r by (intro map_idI) auto
    ultimately show ?thesis
      using ret by (simp add: firstRow_def)
  qed
  show ?thesis
    using len each none by blast
qed

text \<open>
  The owner retitles and reprices the example listing; the same request from user 8
  changes nothing.
\<close>

theorem update_frame_witness:
  "updateListing ''2024-01-02T00:00:00.000Z'' 1 7 retitle [lamp]
     = ([lamp\<lparr>updatedAt := ''2024-01-02T00:00:00.000Z'', title := ''Big lamp'', price := 1200\<rparr>],
        Some (lamp\<lparr>updatedAt := ''2024-01-02T00:00:00.000Z'', title := ''Big lamp'', price := 1200\<rparr>))
   \<and> userId lamp = 7
   \<and> updateListing ''2024-01-02T00:00:00.000Z'' 1 8 retitle [lamp] = ([lamp], None)"
proof -
  have h: "updateListing ''2024-01-02T00:00:00.000Z'' 1 7 retitle [lamp]
     = ([lamp\<lparr>updatedAt := ''2024-01-02T00:00:00.000Z'', title := ''Big lamp'', price := 1200\<rparr>],
        Some (lamp\<lparr>updatedAt := ''2024-01-02T00:00:00.000Z'', title := ''Big lamp'', price := 1200\<rparr>))"
    by (simp add: updateListing_def updateWhere_def updateData_def firstRow_def retitle_def lamp_def)
  obtain rows' returned
    where g: "updateListing ''2024-01-02T00:00:00.000Z'' 1 8 retitle [lamp] = (rows', returned)"
    by (cases "updateListing ''2024-01-02T00:00:00.000Z'' 1 8 retitle [lamp]")
  have u: "userId lamp = 7"
    by (simp add: lamp_def)
  then have n: "\<forall>l \<in> set [lamp]. listing_id l = 1 \<longrightarrow> userId l \<noteq> 8"
    by simp
  from update_frame [OF g] n have "rows' = [lamp] \<and> returned = None"
    by blast
  with g h u show ?thesis
    by simp
qed

end
